theory Spec2Isabelle
  imports Main "HOL-Library.Sublist"
begin

section \<open>String primitives of the host language\<close>

text \<open>
  The filter engine of \<^verbatim>\<open>src/App.js\<close> calls three methods of JavaScript strings:
  \<^verbatim>\<open>trim\<close>, \<^verbatim>\<open>toLowerCase\<close> and \<^verbatim>\<open>includes\<close>. A string of the model is a
  \<^typ>\<open>string\<close>, and a character stands for one code unit below 256 (the Basic Latin
  and Latin-1 Supplement blocks). On that range \<^verbatim>\<open>toLowerCase\<close> maps character by
  character: A to Z and the capital letters U+00C0 to U+00DE (U+00D7, the multiplication
  sign, apart) move up by 32, everything else stays. The white space that \<^verbatim>\<open>trim\<close>
  removes on that range is U+0009 to U+000D, U+0020 and U+00A0. Code units from 256 on,
  where lower-casing depends on the context of a letter, are left to the model on UTF-16
  strings further down.
\<close>

definition isWhiteSpace :: "char \<Rightarrow> bool" where
  "isWhiteSpace c =
     (let n = (of_char c :: nat) in (9 \<le> n \<and> n \<le> 13) \<or> n = 32 \<or> n = 160)"

definition trim :: "string \<Rightarrow> string" where
  "trim s = rev (dropWhile isWhiteSpace (rev (dropWhile isWhiteSpace s)))"

definition toLowerChar :: "char \<Rightarrow> char" where
  "toLowerChar c =
     (let n = (of_char c :: nat)
      in if (65 \<le> n \<and> n \<le> 90) \<or> (192 \<le> n \<and> n \<le> 222 \<and> n \<noteq> 215)
         then char_of (n + 32) else c)"

definition toLowerCase :: "string \<Rightarrow> string" where
  "toLowerCase s = map toLowerChar s"

text \<open>\<^verbatim>\<open>s.includes(t)\<close>: \<open>t\<close> starts at some position of \<open>s\<close>.\<close>

fun str_includes :: "string \<Rightarrow> string \<Rightarrow> bool" where
  "str_includes [] t = (t = [])"
| "str_includes (c # s) t = (prefix t (c # s) \<or> str_includes s t)"

text \<open>\<^verbatim>\<open>xs.includes(x)\<close> on an array of strings.\<close>

definition arr_includes :: "string list \<Rightarrow> string \<Rightarrow> bool" where
  "arr_includes xs x = (x \<in> set xs)"

section \<open>Jobs\<close>

text \<open>
  A job is a plain object. The engine reads six of its properties; any of them may be
  missing (\<^verbatim>\<open>undefined\<close>), which is \<open>None\<close> here. \<open>job_id\<close> is the property
  \<^verbatim>\<open>id\<close>. The remaining properties of a job (description, salary, ...) are only
  displayed and are not part of the record.
\<close>

record job =
  job_id :: string
  title :: "string option"
  company :: "string option"
  location :: "string option"
  type :: "string option"
  stage :: "string option"
  tags :: "string list option"

text \<open>The fallback data \<^verbatim>\<open>MOCK_JOBS\<close>.\<close>

definition job1 :: job where
  "job1 = \<lparr>job_id = ''job-1'', title = Some ''Frontend Engineer'',
     company = Some ''TechFlow AG'', location = Some ''Zurich'', type = Some ''Full-time'',
     stage = Some ''Seed'', tags = Some [''React'', ''TypeScript'']\<rparr>"

definition job2 :: job where
  "job2 = \<lparr>job_id = ''job-2'', title = Some ''Product Designer'',
     company = Some ''Designly'', location = Some ''Remote'', type = Some ''Part-time'',
     stage = Some ''Series A'', tags = Some [''Figma'', ''UX'']\<rparr>"

definition job3 :: job where
  "job3 = \<lparr>job_id = ''job-3'', title = Some ''Machine Learning Intern'',
     company = Some ''AiSwiss'', location = Some ''Lausanne'', type = Some ''Internship'',
     stage = Some ''Pre-seed'', tags = Some [''AI/ML'', ''Python'']\<rparr>"

definition MOCK_JOBS :: "job list" where
  "MOCK_JOBS = [job1, job2, job3]"

section \<open>The filter engine\<close>

text \<open>
  \<^verbatim>\<open>filteredJobs\<close> (App.js, lines 346 to 368). \<open>matchesSearch\<close> is the constant of
  that name in the callback, \<open>matchesFilter\<close> the callback given to \<^verbatim>\<open>every\<close>, and
  \<open>keepJob\<close> the callback given to \<^verbatim>\<open>jobs.filter\<close>. An optional call
  \<^verbatim>\<open>x?.m()\<close> on a missing \<open>x\<close> is \<^verbatim>\<open>undefined\<close>, which counts as false.
\<close>

definition matchesSearch :: "string \<Rightarrow> job \<Rightarrow> bool" where
  "matchesSearch term job =
     (term = [] \<or>
      (case title job of None \<Rightarrow> False
       | Some s \<Rightarrow> str_includes (toLowerCase s) term) \<or>
      (case company job of None \<Rightarrow> False
       | Some s \<Rightarrow> str_includes (toLowerCase s) term) \<or>
      (case tags job of None \<Rightarrow> False
       | Some ts \<Rightarrow> list_ex (\<lambda>t. str_includes (toLowerCase t) term) ts))"

definition matchesFilter :: "job \<Rightarrow> string \<Rightarrow> bool" where
  "matchesFilter job f =
     (location job = Some f \<or>
      type job = Some f \<or>
      arr_includes (case tags job of None \<Rightarrow> [] | Some ts \<Rightarrow> ts) f \<or>
      stage job = Some f)"

definition keepJob :: "string \<Rightarrow> string list \<Rightarrow> job \<Rightarrow> bool" where
  "keepJob term selectedFilters job =
     (if \<not> matchesSearch term job then False
      else if length selectedFilters = 0 then True
      else list_all (matchesFilter job) selectedFilters)"

definition filteredJobs :: "job list \<Rightarrow> string \<Rightarrow> string list \<Rightarrow> job list" where
  "filteredJobs jobs debouncedSearch selectedFilters =
     (let term = toLowerCase (trim debouncedSearch)
      in filter (keepJob term selectedFilters) jobs)"

section \<open>The engine on untyped objects\<close>

text \<open>
  Nothing in the language keeps a job object to the shape of the record \<open>job\<close>: a
  property may hold any value, and a method call on a value that lacks the method raises
  a \<^verbatim>\<open>TypeError\<close>. The second model of the same callback keeps those errors. A
  value is \<^verbatim>\<open>undefined\<close>, \<^verbatim>\<open>null\<close>, a boolean, a string or an array; an
  evaluation returns \<open>Inl TypeError\<close> where the code would throw. The search term and
  the filter values are strings, as they are in the component's state.
\<close>

datatype jsval = Undefined | Null | Bool bool | Str string | Arr "jsval list"

datatype error = TypeError

record jsjob =
  js_id :: jsval
  js_title :: jsval
  js_company :: jsval
  js_location :: jsval
  js_type :: jsval
  js_stage :: jsval
  js_tags :: jsval

text \<open>\<^verbatim>\<open>a || b\<close> on truth values: \<open>b\<close> is evaluated only when \<open>a\<close> is falsy.\<close>

definition or_else :: "error + bool \<Rightarrow> error + bool \<Rightarrow> error + bool" where
  "or_else a b =
     (case a of Inl e \<Rightarrow> Inl e | Inr x \<Rightarrow> if x then Inr True else b)"

text \<open>
  \<^verbatim>\<open>v?.toLowerCase().includes(term)\<close>: the chain stops at a missing \<open>v\<close>; a
  boolean and an array have no \<^verbatim>\<open>toLowerCase\<close>.
\<close>

definition opt_lower_includes :: "jsval \<Rightarrow> string \<Rightarrow> error + bool" where
  "opt_lower_includes v term =
     (case v of
        Undefined \<Rightarrow> Inr False
      | Null \<Rightarrow> Inr False
      | Str s \<Rightarrow> Inr (str_includes (toLowerCase s) term)
      | Bool b \<Rightarrow> Inl TypeError
      | Arr xs \<Rightarrow> Inl TypeError)"

text \<open>The callback \<^verbatim>\<open>(t) => t.toLowerCase().includes(term)\<close>, with no guard.\<close>

definition lower_includes :: "string \<Rightarrow> jsval \<Rightarrow> error + bool" where
  "lower_includes term t =
     (case t of
        Str s \<Rightarrow> Inr (str_includes (toLowerCase s) term)
      | _ \<Rightarrow> Inl TypeError)"

text \<open>\<^verbatim>\<open>Array.prototype.some\<close>: stops at the first element the callback accepts.\<close>

fun some_js :: "(jsval \<Rightarrow> error + bool) \<Rightarrow> jsval list \<Rightarrow> error + bool" where
  "some_js p [] = Inr False"
| "some_js p (x # xs) =
     (case p x of Inl e \<Rightarrow> Inl e | Inr b \<Rightarrow> if b then Inr True else some_js p xs)"

text \<open>\<^verbatim>\<open>v?.some(...)\<close>: only an array has \<^verbatim>\<open>some\<close>.\<close>

definition opt_some :: "jsval \<Rightarrow> string \<Rightarrow> error + bool" where
  "opt_some v term =
     (case v of
        Undefined \<Rightarrow> Inr False
      | Null \<Rightarrow> Inr False
      | Arr xs \<Rightarrow> some_js (lower_includes term) xs
      | Bool b \<Rightarrow> Inl TypeError
      | Str s \<Rightarrow> Inl TypeError)"

definition matchesSearch_js :: "string \<Rightarrow> jsjob \<Rightarrow> error + bool" where
  "matchesSearch_js term job =
     or_else (or_else (or_else (Inr (term = []))
        (opt_lower_includes (js_title job) term))
        (opt_lower_includes (js_company job) term))
        (opt_some (js_tags job) term)"

text \<open>
  \<^verbatim>\<open>(v || []).includes(f)\<close>: a falsy \<open>v\<close> (missing, \<^verbatim>\<open>false\<close>, the empty
  string) gives way to the empty array; an array is searched for the string \<open>f\<close>, a
  non-empty string for the substring \<open>f\<close>; \<^verbatim>\<open>true\<close> has no \<^verbatim>\<open>includes\<close>.
\<close>

definition tags_or_empty_includes :: "jsval \<Rightarrow> string \<Rightarrow> error + bool" where
  "tags_or_empty_includes v f =
     (case v of
        Undefined \<Rightarrow> Inr False
      | Null \<Rightarrow> Inr False
      | Bool b \<Rightarrow> if b then Inl TypeError else Inr False
      | Str s \<Rightarrow> if s = [] then Inr False else Inr (str_includes s f)
      | Arr xs \<Rightarrow> Inr (Str f \<in> set xs))"

definition matchesFilter_js :: "jsjob \<Rightarrow> string \<Rightarrow> error + bool" where
  "matchesFilter_js job f =
     or_else (or_else (or_else (Inr (js_location job = Str f))
        (Inr (js_type job = Str f)))
        (tags_or_empty_includes (js_tags job) f))
        (Inr (js_stage job = Str f))"

text \<open>\<^verbatim>\<open>Array.prototype.every\<close>: stops at the first element the callback rejects.\<close>

fun every_js :: "(string \<Rightarrow> error + bool) \<Rightarrow> string list \<Rightarrow> error + bool" where
  "every_js p [] = Inr True"
| "every_js p (f # fs) =
     (case p f of Inl e \<Rightarrow> Inl e | Inr b \<Rightarrow> if b then every_js p fs else Inr False)"

definition keepJob_js :: "string \<Rightarrow> string list \<Rightarrow> jsjob \<Rightarrow> error + bool" where
  "keepJob_js term selectedFilters job =
     (case matchesSearch_js term job of
        Inl e \<Rightarrow> Inl e
      | Inr m \<Rightarrow>
          if \<not> m then Inr False
          else if length selectedFilters = 0 then Inr True
          else every_js (matchesFilter_js job) selectedFilters)"

text \<open>\<^verbatim>\<open>Array.prototype.filter\<close>: an error in one call of the callback ends it.\<close>

fun filter_js :: "('a \<Rightarrow> error + bool) \<Rightarrow> 'a list \<Rightarrow> error + 'a list" where
  "filter_js p [] = Inr []"
| "filter_js p (x # xs) =
     (case p x of
        Inl e \<Rightarrow> Inl e
      | Inr b \<Rightarrow>
          (case filter_js p xs of
             Inl e \<Rightarrow> Inl e
           | Inr ys \<Rightarrow> Inr (if b then x # ys else ys)))"

definition filteredJobs_js ::
  "jsjob list \<Rightarrow> string \<Rightarrow> string list \<Rightarrow> error + jsjob list" where
  "filteredJobs_js jobs debouncedSearch selectedFilters =
     (let term = toLowerCase (trim debouncedSearch)
      in filter_js (keepJob_js term selectedFilters) jobs)"

text \<open>The object that a typed job stands for.\<close>

definition js_opt :: "string option \<Rightarrow> jsval" where
  "js_opt v = (case v of None \<Rightarrow> Undefined | Some s \<Rightarrow> Str s)"

definition js_of_job :: "job \<Rightarrow> jsjob" where
  "js_of_job j =
     \<lparr>js_id = Str (job_id j), js_title = js_opt (title j), js_company = js_opt (company j),
      js_location = js_opt (location j), js_type = js_opt (type j),
      js_stage = js_opt (stage j),
      js_tags = (case tags j of None \<Rightarrow> Undefined | Some ts \<Rightarrow> Arr (map Str ts))\<rparr>"

text \<open>Two objects for the examples: a job without tags, and one whose tags hold \<^verbatim>\<open>null\<close>.\<close>

definition untagged_job :: job where
  "untagged_job = \<lparr>job_id = ''job-4'', title = Some ''Data Analyst'',
     company = Some ''Alpine Data'', location = Some ''Basel'', type = Some ''Full-time'',
     stage = Some ''Seed'', tags = None\<rparr>"

definition bad_job :: jsjob where
  "bad_job = \<lparr>js_id = Str ''job-9'', js_title = Str ''Chef'', js_company = Undefined,
     js_location = Undefined, js_type = Undefined, js_stage = Undefined,
     js_tags = Arr [Null]\<rparr>"

section \<open>The engine on UTF-16 strings\<close>


























section \<open>The selection state\<close>

text \<open>
  The part of the component's state that feeds the engine: the text of the search box
  (\<open>searchTerm\<close>), the value the hook \<^verbatim>\<open>useDebounced\<close> hands on once the box has
  been quiet for the delay (\<open>debouncedSearch\<close>), and the selected filter values. Each
  handler runs as one step on the current state. \<^verbatim>\<open>clearFilters\<close> also starts a
  reload of the job list, which touches no field of this record.
\<close>

record selection =
  searchTerm :: string
  debouncedSearch :: string
  selectedFilters :: "string list"

definition initial :: selection where
  "initial = \<lparr>searchTerm = [], debouncedSearch = [], selectedFilters = []\<rparr>"

definition setSearchTerm :: "string \<Rightarrow> selection \<Rightarrow> selection" where
  "setSearchTerm v s = s\<lparr>searchTerm := v\<rparr>"

definition useDebounced :: "selection \<Rightarrow> selection" where
  "useDebounced s = s\<lparr>debouncedSearch := searchTerm s\<rparr>"

definition addFilter :: "string \<Rightarrow> selection \<Rightarrow> selection" where
  "addFilter f s =
     (if \<not> arr_includes (selectedFilters s) f
      then s\<lparr>selectedFilters := selectedFilters s @ [f]\<rparr>
      else s)"

definition removeFilter :: "string \<Rightarrow> selection \<Rightarrow> selection" where
  "removeFilter f s = s\<lparr>selectedFilters := filter (\<lambda>x. x \<noteq> f) (selectedFilters s)\<rparr>"

definition clearFilters :: "selection \<Rightarrow> selection" where
  "clearFilters s = s\<lparr>selectedFilters := [], searchTerm := []\<rparr>"

inductive reachable :: "selection \<Rightarrow> bool" where
  start: "reachable initial"
| typed: "reachable s \<Longrightarrow> reachable (setSearchTerm v s)"
| debounced: "reachable s \<Longrightarrow> reachable (useDebounced s)"
| added: "reachable s \<Longrightarrow> reachable (addFilter f s)"
| removed: "reachable s \<Longrightarrow> reachable (removeFilter f s)"
| cleared: "reachable s \<Longrightarrow> reachable (clearFilters s)"

text \<open>The state after the clicks Remote, React, Remote on the filter panel.\<close>

definition three_clicks :: selection where
  "three_clicks = addFilter ''Remote'' (addFilter ''React'' (addFilter ''Remote'' initial))"

section \<open>Facts about the string primitives\<close>

lemma str_includes_sublist: "str_includes s t \<longleftrightarrow> sublist t s"
  by (induction s) (auto simp: sublist_Cons_right)

lemma toLowerCase_Nil_iff: "toLowerCase s = [] \<longleftrightarrow> s = []"
  by (simp add: toLowerCase_def)

lemma trim_Nil: "trim [] = []"
  by (simp add: trim_def)

lemma isWhiteSpace_toLowerChar: "isWhiteSpace (toLowerChar c) = isWhiteSpace c"
  unfolding isWhiteSpace_def toLowerChar_def Let_def by auto

lemma toLowerChar_idem: "toLowerChar (toLowerChar c) = toLowerChar c"
  unfolding toLowerChar_def Let_def by auto

lemma toLowerCase_idem: "toLowerCase (toLowerCase s) = toLowerCase s"
  by (simp add: toLowerCase_def toLowerChar_idem)

lemma dropWhile_toLowerCase:
  "dropWhile isWhiteSpace (toLowerCase s) = toLowerCase (dropWhile isWhiteSpace s)"
  by (induction s) (simp_all add: toLowerCase_def isWhiteSpace_toLowerChar)

text \<open>Trimming and lower-casing commute: no letter turns into white space or back.\<close>

lemma trim_toLowerCase: "trim (toLowerCase s) = toLowerCase (trim s)"
proof -
  have r: "rev (toLowerCase xs) = toLowerCase (rev xs)" for xs
    by (simp add: toLowerCase_def rev_map)
  show ?thesis
    by (simp add: trim_def dropWhile_toLowerCase r)
qed

lemma normalised_term_cong:
  assumes "toLowerCase t1 = toLowerCase t2"
  shows "toLowerCase (trim t1) = toLowerCase (trim t2)"
proof -
  have "toLowerCase (trim t1) = toLowerCase (toLowerCase (trim t1))"
    by (simp add: toLowerCase_idem)
  also have "\<dots> = toLowerCase (trim (toLowerCase t1))"
    by (simp add: trim_toLowerCase)
  also have "\<dots> = toLowerCase (trim (toLowerCase t2))"
    by (simp add: assms)
  also have "\<dots> = toLowerCase (trim t2)"
    by (simp add: trim_toLowerCase toLowerCase_idem)
  finally show ?thesis .
qed

lemma trim_white: "list_all isWhiteSpace w \<Longrightarrow> trim w = []"
proof -
  assume "list_all isWhiteSpace w"
  then have d: "dropWhile isWhiteSpace w = []"
    by (simp add: list_all_iff)
  show ?thesis
    unfolding trim_def d by simp
qed

section \<open>The callback as a predicate\<close>

lemma keepJob_iff:
  "keepJob term F job \<longleftrightarrow> matchesSearch term job \<and> list_all (matchesFilter job) F"
  by (cases F) (simp_all add: keepJob_def)

lemma keepJob_no_filters: "keepJob [] [] job"
  by (simp add: keepJob_def matchesSearch_def)

lemma matchesSearch_iff:
  "matchesSearch term job \<longleftrightarrow>
     term = [] \<or>
     (\<exists>s. title job = Some s \<and> sublist term (toLowerCase s)) \<or>
     (\<exists>s. company job = Some s \<and> sublist term (toLowerCase s)) \<or>
     (\<exists>ts t. tags job = Some ts \<and> t \<in> set ts \<and> sublist term (toLowerCase t))"
  by (auto simp: matchesSearch_def str_includes_sublist list_ex_iff split: option.splits)

lemma matchesFilter_iff:
  "matchesFilter job f \<longleftrightarrow>
     location job = Some f \<or> type job = Some f \<or>
     (\<exists>ts. tags job = Some ts \<and> f \<in> set ts) \<or> stage job = Some f"
  by (cases "tags job") (auto simp: matchesFilter_def arr_includes_def)

lemma filteredJobs_append:
  "filteredJobs J t (F @ [x]) = filter (\<lambda>j. matchesFilter j x) (filteredJobs J t F)"
  by (auto simp: filteredJobs_def keepJob_iff intro: filter_cong)

text \<open>The scenarios of the engine's description, on the first mock job.\<close>

lemma scenarios:
  "filteredJobs [job1] ''front'' [] = [job1]"
  "filteredJobs [job1] [] [''Remote''] = []"
  "filteredJobs [job1] [] [''React''] = [job1]"
  "filteredJobs [job1] ''zz'' [] = []"
  by code_simp+

section \<open>Visibility\<close>

text \<open>
  Claim C1. A job of the list \<open>J\<close> is in the engine's output exactly when it matches the
  search term and every selected filter value. It matches the search term when the
  trimmed term is empty, or the lower-cased, trimmed term is a substring of the
  lower-cased title, of the lower-cased company or of a lower-cased tag. It matches a
  filter value \<open>f\<close> when its location, its type or its stage is \<open>f\<close>, or \<open>f\<close> is one of
  its tags. A missing property matches nothing.
\<close>

theorem filteredJobs_visible_iff:
  "j \<in> set (filteredJobs J t F) \<longleftrightarrow>
     j \<in> set J \<and>
     (trim t = [] \<or>
      (\<exists>s. title j = Some s \<and> sublist (toLowerCase (trim t)) (toLowerCase s)) \<or>
      (\<exists>s. company j = Some s \<and> sublist (toLowerCase (trim t)) (toLowerCase s)) \<or>
      (\<exists>ts tg. tags j = Some ts \<and> tg \<in> set ts \<and>
         sublist (toLowerCase (trim t)) (toLowerCase tg))) \<and>
     (\<forall>f \<in> set F. location j = Some f \<or> type j = Some f \<or>
        (\<exists>ts. tags j = Some ts \<and> f \<in> set ts) \<or> stage j = Some f)"
proof -
  have "j \<in> set (filteredJobs J t F) \<longleftrightarrow>
      j \<in> set J \<and> matchesSearch (toLowerCase (trim t)) j \<and>
      (\<forall>f \<in> set F. matchesFilter j f)"
    by (simp add: filteredJobs_def keepJob_iff list_all_iff)
  then show ?thesis
    by (simp only: matchesSearch_iff [of "toLowerCase (trim t)"] matchesFilter_iff
        toLowerCase_Nil_iff)
qed

theorem filteredJobs_visible_iff_witness:
  "job1 \<in> set (filteredJobs MOCK_JOBS '' FRONT  '' [''React'', ''Zurich'']) \<and>
   job2 \<notin> set (filteredJobs MOCK_JOBS '' FRONT  '' [''React'', ''Zurich''])"
proof -
  have a: "toLowerCase (trim '' FRONT  '') = ''front''"
    by code_simp
  have b: "sublist ''front'' (toLowerCase ''Frontend Engineer'')"
    by code_simp
  show ?thesis
    using filteredJobs_visible_iff [of job1 MOCK_JOBS "'' FRONT  ''" "[''React'', ''Zurich'']"]
      filteredJobs_visible_iff [of job2 MOCK_JOBS "'' FRONT  ''" "[''React'', ''Zurich'']"]
      a b
    by (simp add: MOCK_JOBS_def job1_def job2_def)
qed

text \<open>
  Claim C2. With the empty search term and no selected filter the engine returns the
  job list it was given.
\<close>

theorem filteredJobs_identity: "filteredJobs J [] [] = J"
  by (simp add: filteredJobs_def trim_Nil toLowerCase_def keepJob_no_filters)

text \<open>
  Claim C3. The output is a subsequence of the job list: the jobs that survive keep the
  order they have in the list, and every job of the output is a job of the list.
\<close>

theorem filteredJobs_subseq:
  "subseq (filteredJobs J t F) J \<and> set (filteredJobs J t F) \<subseteq> set J"
  by (simp add: filteredJobs_def)

text \<open>
  Claim C4. The engine is idempotent: run on its own output with the same term and the
  same filters, it returns that output.
\<close>

theorem filteredJobs_idempotent:
  "filteredJobs (filteredJobs J t F) t F = filteredJobs J t F"
  by (simp add: filteredJobs_def)

text \<open>
  Claim C5. One more filter value never makes the output longer, whether the value is
  put at the end of the filter sequence or added by \<^verbatim>\<open>addFilter\<close> (which leaves a
  sequence that has the value as it is).
\<close>

theorem add_filter_shrinks:
  "length (filteredJobs J t (F @ [x])) \<le> length (filteredJobs J t F) \<and>
   length (filteredJobs J t (selectedFilters (addFilter x s)))
     \<le> length (filteredJobs J t (selectedFilters s))"
  by (simp add: filteredJobs_append addFilter_def)

text \<open>
  The typed engine takes the search term up to letter case and surrounding white space:
  two terms with the same lower-casing give the same output (so do REACT and react), and
  a term of white space only gives the output of the empty term.
\<close>

lemma search_term_normalised:
  "(toLowerCase t1 = toLowerCase t2 \<longrightarrow> filteredJobs J t1 F = filteredJobs J t2 F) \<and>
   filteredJobs J ''REACT'' F = filteredJobs J ''react'' F \<and>
   (list_all isWhiteSpace w \<longrightarrow> filteredJobs J w F = filteredJobs J [] F)"
proof (intro conjI impI)
  assume "toLowerCase t1 = toLowerCase t2"
  then have "toLowerCase (trim t1) = toLowerCase (trim t2)"
    by (rule normalised_term_cong)
  then show "filteredJobs J t1 F = filteredJobs J t2 F"
    by (simp add: filteredJobs_def)
next
  have "toLowerCase ''REACT'' = toLowerCase ''react''"
    by code_simp
  then have "toLowerCase (trim ''REACT'') = toLowerCase (trim ''react'')"
    by (rule normalised_term_cong)
  then show "filteredJobs J ''REACT'' F = filteredJobs J ''react'' F"
    by (simp add: filteredJobs_def)
next
  assume "list_all isWhiteSpace w"
  then show "filteredJobs J w F = filteredJobs J [] F"
    by (simp add: filteredJobs_def trim_white trim_Nil)
qed

section \<open>The search term on UTF-16 strings\<close>






























section \<open>No run-time error on well-formed jobs\<close>

lemma opt_lower_includes_js_opt:
  "opt_lower_includes (js_opt v) term =
     Inr (case v of None \<Rightarrow> False | Some s \<Rightarrow> str_includes (toLowerCase s) term)"
  by (cases v) (simp_all add: opt_lower_includes_def js_opt_def)

lemma some_js_strings:
  "some_js (lower_includes term) (map Str ts) =
     Inr (list_ex (\<lambda>t. str_includes (toLowerCase t) term) ts)"
  by (induction ts) (simp_all add: lower_includes_def)

lemma matchesSearch_js_typed:
  "matchesSearch_js term (js_of_job j) = Inr (matchesSearch term j)"
  by (cases "tags j")
     (auto simp: matchesSearch_js_def matchesSearch_def js_of_job_def or_else_def
        opt_lower_includes_js_opt opt_some_def some_js_strings)

lemma js_opt_eq_Str: "js_opt v = Str f \<longleftrightarrow> v = Some f"
  by (cases v) (simp_all add: js_opt_def)

lemma matchesFilter_js_typed:
  "matchesFilter_js (js_of_job j) f = Inr (matchesFilter j f)"
  by (cases "tags j")
     (auto simp: matchesFilter_js_def matchesFilter_def js_of_job_def or_else_def
        js_opt_eq_Str tags_or_empty_includes_def arr_includes_def)

lemma every_js_pure: "(\<And>f. p f = Inr (q f)) \<Longrightarrow> every_js p F = Inr (list_all q F)"
  by (induction F) simp_all

lemma keepJob_js_typed:
  "keepJob_js term F (js_of_job j) = Inr (keepJob term F j)"
  by (simp add: keepJob_js_def keepJob_def matchesSearch_js_typed
      every_js_pure [of _ "matchesFilter j"] matchesFilter_js_typed)

lemma filter_js_pure:
  "(\<And>x. p (g x) = Inr (q x)) \<Longrightarrow> filter_js p (map g xs) = Inr (map g (filter q xs))"
  by (induction xs) simp_all

lemma filteredJobs_js_typed:
  "filteredJobs_js (map js_of_job J) t F = Inr (map js_of_job (filteredJobs J t F))"
  by (simp add: filteredJobs_js_def filteredJobs_def filter_js_pure keepJob_js_typed)

lemma keepJob_js_tags_undefined:
  "keepJob_js term F (j\<lparr>js_tags := Undefined\<rparr>) = keepJob_js term F (j\<lparr>js_tags := Arr []\<rparr>)"
proof -
  have s: "matchesSearch_js term (j\<lparr>js_tags := Undefined\<rparr>)
      = matchesSearch_js term (j\<lparr>js_tags := Arr []\<rparr>)"
    by (simp add: matchesSearch_js_def opt_some_def)
  have f: "matchesFilter_js (j\<lparr>js_tags := Undefined\<rparr>)
      = matchesFilter_js (j\<lparr>js_tags := Arr []\<rparr>)"
    by (rule ext) (simp add: matchesFilter_js_def tags_or_empty_includes_def)
  show ?thesis
    unfolding keepJob_js_def s f by (rule refl)
qed

lemma typed_tags_undefined:
  "matchesSearch term (j\<lparr>tags := None\<rparr>) = matchesSearch term (j\<lparr>tags := Some []\<rparr>)"
  "matchesFilter (j\<lparr>tags := None\<rparr>) f = matchesFilter (j\<lparr>tags := Some []\<rparr>) f"
  by (simp_all add: matchesSearch_def matchesFilter_def arr_includes_def)

text \<open>
  The errors of the untyped model are real. A tag that is \<^verbatim>\<open>null\<close> makes the engine
  throw when the search reaches the tags, and not when the title has matched before.
\<close>

lemma ill_typed_raises: "filteredJobs_js [bad_job] ''react'' [] = Inl TypeError"
  by code_simp

lemma ill_typed_short_circuit: "filteredJobs_js [bad_job] ''chef'' [] = Inr [bad_job]"
  by code_simp

text \<open>
  Claim C7. The engine is total on its input domain. On every list of jobs whose
  properties are strings (a list of strings for the tags) or missing, with every search
  term and every filter sequence, the evaluation that keeps the run-time type errors
  ends without one, and its result is the one of the typed engine. A job whose tags are
  missing is treated as a job with no tag, by the search and by each filter value, in
  the untyped and in the typed callback.
\<close>

theorem filteredJobs_total:
  "filteredJobs_js (map js_of_job J) t F = Inr (map js_of_job (filteredJobs J t F)) \<and>
   keepJob_js term F (obj\<lparr>js_tags := Undefined\<rparr>)
     = keepJob_js term F (obj\<lparr>js_tags := Arr []\<rparr>) \<and>
   matchesSearch term (j\<lparr>tags := None\<rparr>) = matchesSearch term (j\<lparr>tags := Some []\<rparr>) \<and>
   matchesFilter (j\<lparr>tags := None\<rparr>) f = matchesFilter (j\<lparr>tags := Some []\<rparr>) f"
  by (simp only: filteredJobs_js_typed keepJob_js_tags_undefined typed_tags_undefined simp_thms)

theorem filteredJobs_total_witness:
  "filteredJobs_js (map js_of_job [untagged_job, job1]) ''data'' [''Basel'']
     = Inr [js_of_job untagged_job] \<and>
   filteredJobs_js [] [] [] = Inr [] \<and>
   filteredJobs_js (map js_of_job [untagged_job]) ''react'' [] = Inr [] \<and>
   filteredJobs_js (map js_of_job [untagged_job]) [] [''React''] = Inr [] \<and>
   js_tags (js_of_job untagged_job) = Undefined"
proof -
  have a: "filteredJobs [untagged_job, job1] ''data'' [''Basel''] = [untagged_job]"
    by code_simp
  have b: "filteredJobs [] [] [] = []"
    by code_simp
  have c: "js_tags (js_of_job untagged_job) = Undefined"
    by (simp add: js_of_job_def untagged_job_def)
  have d: "filteredJobs [untagged_job] ''react'' [] = []"
    by code_simp
  have e: "filteredJobs [untagged_job] [] [''React''] = []"
    by code_simp
  show ?thesis
    using filteredJobs_total [of "[untagged_job, job1]" "''data''" "[''Basel'']"]
      filteredJobs_total [of "[]" "[]" "[]"]
      filteredJobs_total [of "[untagged_job]" "''react''" "[]"]
      filteredJobs_total [of "[untagged_job]" "[]" "[''React'']"] a b c d e
    by simp
qed

section \<open>The selected filters\<close>

lemma distinct_step:
  "distinct (selectedFilters s) \<Longrightarrow> distinct (selectedFilters (addFilter f s))"
  "distinct (selectedFilters s) \<Longrightarrow> distinct (selectedFilters (removeFilter f s))"
  "distinct (selectedFilters (clearFilters s))"
  by (simp_all add: addFilter_def removeFilter_def clearFilters_def arr_includes_def)

text \<open>
  Claim C8. No selected filter value occurs twice: in every state reached from the
  initial one by the handlers (the three filter handlers, and the two steps of the
  search box) the filter values are pairwise distinct, and \<^verbatim>\<open>addFilter\<close> of a value
  that is selected already leaves the state as it is.
\<close>

theorem selectedFilters_distinct:
  "reachable s \<Longrightarrow>
     distinct (selectedFilters s) \<and> (\<forall>f \<in> set (selectedFilters s). addFilter f s = s)"
proof (rule conjI)
  show "reachable s \<Longrightarrow> distinct (selectedFilters s)"
    by (induction s rule: reachable.induct)
       (simp_all add: distinct_step initial_def setSearchTerm_def useDebounced_def)
  show "\<forall>f \<in> set (selectedFilters s). addFilter f s = s"
    by (simp add: addFilter_def arr_includes_def)
qed

theorem selectedFilters_distinct_witness:
  "reachable three_clicks \<and> selectedFilters three_clicks = [''Remote'', ''React''] \<and>
   distinct (selectedFilters three_clicks) \<and> addFilter ''Remote'' three_clicks = three_clicks"
proof -
  have r: "reachable three_clicks"
    unfolding three_clicks_def by (intro reachable.added reachable.start)
  have v: "selectedFilters three_clicks = [''Remote'', ''React'']"
    by (simp add: three_clicks_def addFilter_def arr_includes_def initial_def)
  show ?thesis
    using selectedFilters_distinct [OF r] r v by simp
qed

text \<open>
  Claim C9. A filter value is compared by exact, case-sensitive equality, unlike the
  search term. The second mock job has the location Remote: the filter value remote
  drops it, the value Remote keeps it. The tag React behaves the same way as a filter
  value, while the search term react finds it.
\<close>

theorem filter_values_exact:
  "job2 \<in> set MOCK_JOBS \<and> location job2 = Some ''Remote'' \<and>
   job2 \<notin> set (filteredJobs MOCK_JOBS [] [''remote'']) \<and>
   job2 \<in> set (filteredJobs MOCK_JOBS [] [''Remote'']) \<and>
   filteredJobs MOCK_JOBS [] [''react''] = [] \<and>
   filteredJobs MOCK_JOBS [] [''React''] = [job1] \<and>
   filteredJobs MOCK_JOBS ''react'' [] = [job1]"
  by code_simp

text \<open>
  Claim C10. \<^verbatim>\<open>clearFilters\<close> resets both the selected filters and the text of the
  search box: after it, no filter is selected and the search term is the empty string.
\<close>

theorem clearFilters_resets:
  "selectedFilters (clearFilters s) = [] \<and> searchTerm (clearFilters s) = []"
  by (simp add: clearFilters_def)

end
